theory Spec2Isabelle
  imports Main
begin

section \<open>Data model (types.ts)\<close>

text \<open>
  \<^verbatim>\<open>LocationId\<close> is a TypeScript string enum: at run time its members are the strings
  below, and the value assigned to \<^verbatim>\<open>currentLocation\<close> comes from a reply typed
  \<^verbatim>\<open>any\<close>. The field is therefore a string, and the closed set is the list
  \<^verbatim>\<open>Object.values(LocationId)\<close>.
\<close>

definition Station :: string where "Station = ''station''"
definition TownSquare :: string where "TownSquare = ''town_square''"
definition OldLibrary :: string where "OldLibrary = ''old_library''"
definition Observatory :: string where "Observatory = ''observatory''"
definition Forest :: string where "Forest = ''forest''"
definition MayasHouse :: string where "MayasHouse = ''mayas_house''"

definition LocationId_values :: "string list" where
  "LocationId_values = [Station, TownSquare, OldLibrary, Observatory, Forest, MayasHouse]"

datatype GamePhase = Start | Playing | Puzzle | Memory | Ending

record Clue =
  clue_id :: string
  clue_name :: string
  clue_description :: string
  discoveredAt :: string

text \<open>
  The \<^verbatim>\<open>type\<close> of an entry is one of the string literals \<^verbatim>\<open>'description'\<close>,
  \<^verbatim>\<open>'dialogue'\<close>, \<^verbatim>\<open>'action'\<close>, \<^verbatim>\<open>'memory'\<close>; \<^verbatim>\<open>timestamp\<close> is a number of
  milliseconds.
\<close>

record NarrativeEntry =
  entry_id :: string
  speaker :: string
  entry_text :: string
  entry_type :: string
  timestamp :: int

record PuzzleState =
  puzzle_id :: string
  puzzle_description :: string
  puzzle_type :: string
  solved :: bool

record GameState =
  currentLocation :: string
  inventory :: "string list"
  clues :: "Clue list"
  narrativeHistory :: "NarrativeEntry list"
  phase :: GamePhase
  trust :: "(string \<times> int) list"
  puzzleActive :: "PuzzleState option"

section \<open>The service's answer (services/geminiService.ts)\<close>

text \<open>
  The object \<^verbatim>\<open>processResponse\<close> and the two \<^verbatim>\<open>catch\<close> branches build. A property
  that the object literal does not have is \<open>None\<close> (\<^verbatim>\<open>undefined\<close>). The tool schema of
  the source declares \<^verbatim>\<open>narrative\<close> and the clue's \<^verbatim>\<open>name\<close> and \<^verbatim>\<open>description\<close>
  as required strings, the other arguments as optional.
\<close>

record ClueArgs =
  name :: string
  description :: string

record Updates =
  newLocation :: "string option"
  itemAdded :: "string option"
  itemRemoved :: "string option"
  clueAdded :: "ClueArgs option"
  memoryTriggered :: "bool option"

record Response =
  narrative :: string
  updates :: "Updates option"
  error :: "bool option"
  toolCallId :: "string option"
  functionName :: "string option"

text \<open>JavaScript truthiness of an optional string and of an optional boolean.\<close>

definition truthy_string :: "string option \<Rightarrow> bool" where
  "truthy_string v = (case v of None \<Rightarrow> False | Some s \<Rightarrow> s \<noteq> [])"

definition truthy_bool :: "bool option \<Rightarrow> bool" where
  "truthy_bool v = (case v of None \<Rightarrow> False | Some b \<Rightarrow> b)"

section \<open>Host functions\<close>

text \<open>
  \<^verbatim>\<open>Date.now().toString()\<close>: the decimal numeral of an integer number of milliseconds
  (a time value stays far below the magnitude at which JavaScript switches to exponent
  notation).
\<close>

definition digit_char :: "nat \<Rightarrow> char" where
  "digit_char d = char_of (48 + d)"

fun nat_toString :: "nat \<Rightarrow> string" where
  "nat_toString n =
     (if n < 10 then [digit_char n] else nat_toString (n div 10) @ [digit_char (n mod 10)])"

declare nat_toString.simps [simp del]

definition toString :: "int \<Rightarrow> string" where
  "toString i = (if i < 0 then CHR ''-'' # nat_toString (nat (- i)) else nat_toString (nat i))"

text \<open>
  \<^verbatim>\<open>[...new Set(xs)]\<close>: the elements are inserted in order, an element already in the
  set is skipped, and the set is read back in insertion order.
\<close>

fun Set_insert_all :: "'a list \<Rightarrow> 'a list \<Rightarrow> 'a list" where
  "Set_insert_all acc [] = acc"
| "Set_insert_all acc (x # xs) =
     (if x \<in> set acc then Set_insert_all acc xs else Set_insert_all (acc @ [x]) xs)"

definition new_Set :: "'a list \<Rightarrow> 'a list" where
  "new_Set xs = Set_insert_all [] xs"

section \<open>The reducer (App.tsx, handleApiResponse)\<close>

text \<open>
  The clock is read up to four times while one answer is handled: \<^verbatim>\<open>Date.now()\<close> for
  the entry's id and again for its timestamp, and, when a clue is added,
  \<^verbatim>\<open>Date.now()\<close> for the clue's id and \<^verbatim>\<open>new Date().toISOString()\<close> for
  \<^verbatim>\<open>discoveredAt\<close>. The four readings are inputs of the model.
\<close>

record Readings =
  now_entry_id :: int
  now_entry_ts :: int
  now_clue_id :: int
  iso_clue :: string

definition newHistory :: "Readings \<Rightarrow> string \<Rightarrow> Updates \<Rightarrow> NarrativeEntry" where
  "newHistory r narr u =
     \<lparr> entry_id = toString (now_entry_id r),
       speaker = ''GM'',
       entry_text = narr,
       entry_type = (if truthy_bool (memoryTriggered u) then ''memory'' else ''description''),
       timestamp = now_entry_ts r \<rparr>"

definition newClue :: "Readings \<Rightarrow> ClueArgs \<Rightarrow> Clue" where
  "newClue r c =
     \<lparr> clue_id = toString (now_clue_id r),
       clue_name = name c,
       clue_description = description c,
       discoveredAt = iso_clue r \<rparr>"

text \<open>
  The function passed to \<^verbatim>\<open>setGameState\<close>: \<open>prev\<close> is the state React hands in,
  \<open>newState\<close> the shallow copy that is assigned to, statement by statement.
\<close>

definition apply_update :: "Readings \<Rightarrow> string \<Rightarrow> Updates \<Rightarrow> GameState \<Rightarrow> GameState" where
  "apply_update r narr u prev =
     (let newState = prev;
          newState = newState\<lparr>narrativeHistory := narrativeHistory prev @ [newHistory r narr u]\<rparr>;
          newState = (case newLocation u of
                        None \<Rightarrow> newState
                      | Some l \<Rightarrow> if l \<noteq> [] then newState\<lparr>currentLocation := l\<rparr> else newState);
          newState = (case itemAdded u of
                        None \<Rightarrow> newState
                      | Some a \<Rightarrow> if a \<noteq> []
                                 then newState\<lparr>inventory := new_Set (inventory prev @ [a])\<rparr>
                                 else newState);
          newState = (case itemRemoved u of
                        None \<Rightarrow> newState
                      | Some d \<Rightarrow> if d \<noteq> []
                                 then newState\<lparr>inventory := filter (\<lambda>i. i \<noteq> d) (inventory prev)\<rparr>
                                 else newState);
          newState = (case clueAdded u of
                        None \<Rightarrow> newState
                      | Some c \<Rightarrow> newState\<lparr>clues := clues prev @ [newClue r c]\<rparr>)
      in newState)"

text \<open>An update with every optional field absent (\<^verbatim>\<open>updates: {}\<close>).\<close>

definition no_updates :: Updates where
  "no_updates =
     \<lparr> newLocation = None, itemAdded = None, itemRemoved = None, clueAdded = None,
       memoryTriggered = None \<rparr>"

text \<open>
  The updates of a session, applied one after the other: each element is one call of the
  function above, with the clock readings of that call.
\<close>

fun apply_updates :: "(Readings \<times> string \<times> Updates) list \<Rightarrow> GameState \<Rightarrow> GameState" where
  "apply_updates [] s = s"
| "apply_updates ((r, narr, u) # us) s = apply_updates us (apply_update r narr u s)"

text \<open>The clock readings that become clue ids in a run: one for each update that adds a clue.\<close>

fun clue_id_readings :: "(Readings \<times> string \<times> Updates) list \<Rightarrow> int list" where
  "clue_id_readings [] = []"
| "clue_id_readings ((r, narr, u) # us) =
     (case clueAdded u of
        None \<Rightarrow> clue_id_readings us
      | Some c \<Rightarrow> now_clue_id r # clue_id_readings us)"

text \<open>Whether an update names no location, the empty string, or a member of the closed set.\<close>

definition names_known_location :: "Readings \<times> string \<times> Updates \<Rightarrow> bool" where
  "names_known_location x =
     (case newLocation (snd (snd x)) of
        None \<Rightarrow> True
      | Some l \<Rightarrow> l = [] \<or> l \<in> set LocationId_values)"

text \<open>The state \<^verbatim>\<open>useState\<close> starts from.\<close>

definition initialGameState :: GameState where
  "initialGameState =
     \<lparr> currentLocation = Station, inventory = [], clues = [], narrativeHistory = [],
       phase = Start, trust = [(''Silas'', 30), (''Evelyn'', 50), (''Jonas'', 10)],
       puzzleActive = None \<rparr>"

section \<open>Normalising the reply (geminiService.ts, processResponse)\<close>

text \<open>
  The reply of the service, as far as \<^verbatim>\<open>processResponse\<close> reads it. Every property the
  code reaches through \<^verbatim>\<open>?.\<close> or tests for truthiness is optional. \<^verbatim>\<open>args\<close> is read
  without a test and may be absent all the same: the service's reply type declares every
  field of a function call optional.
\<close>

record Args =
  a_narrative :: string
  a_newLocation :: "string option"
  a_itemAdded :: "string option"
  a_itemRemoved :: "string option"
  a_clueAdded :: "ClueArgs option"
  a_memoryTriggered :: "bool option"

record FunctionCall =
  args :: "Args option"
  fc_id :: "string option"
  fc_name :: "string option"

record Part =
  functionCall :: "FunctionCall option"
  part_text :: "string option"

record Content =
  parts :: "Part list option"

record Candidate =
  content :: "Content option"

record GenerateContentResponse =
  candidates :: "Candidate list option"

datatype JsError = TypeError

text \<open>\<^verbatim>\<open>result.candidates?.[0]\<close>\<close>

definition first_candidate :: "GenerateContentResponse \<Rightarrow> Candidate option" where
  "first_candidate result =
     (case candidates result of None \<Rightarrow> None | Some [] \<Rightarrow> None | Some (c # cs) \<Rightarrow> Some c)"

text \<open>\<^verbatim>\<open>candidate?.content?.parts\<close>\<close>

definition candidate_parts :: "Candidate option \<Rightarrow> Part list option" where
  "candidate_parts candidate =
     (case candidate of
        None \<Rightarrow> None
      | Some c \<Rightarrow> (case content c of None \<Rightarrow> None | Some ct \<Rightarrow> parts ct))"

text \<open>\<^verbatim>\<open>parts?.find(pred)\<close>\<close>

definition find_part :: "(Part \<Rightarrow> bool) \<Rightarrow> Part list option \<Rightarrow> Part option" where
  "find_part pred ps = (case ps of None \<Rightarrow> None | Some l \<Rightarrow> find pred l)"

definition text_only :: "string \<Rightarrow> Response" where
  "text_only t =
     \<lparr> narrative = t, updates = Some no_updates, error = None, toolCallId = None,
       functionName = None \<rparr>"

text \<open>
  \<^verbatim>\<open>processResponse\<close>. The part that \<^verbatim>\<open>find(p => p.text)\<close> returns has a non-empty
  text, so the branch for a found part without text is never taken.
\<close>

definition processResponse :: "GenerateContentResponse \<Rightarrow> JsError + Response" where
  "processResponse result =
     (let candidate = first_candidate result;
          part = find_part (\<lambda>p. functionCall p \<noteq> None) (candidate_parts candidate)
      in case (case part of None \<Rightarrow> None | Some p \<Rightarrow> functionCall p) of
           Some fc \<Rightarrow>
             (case args fc of
                None \<Rightarrow> Inl TypeError
              | Some a \<Rightarrow>
                  Inr \<lparr> narrative = a_narrative a,
                        updates = Some \<lparr> newLocation = a_newLocation a,
                                         itemAdded = a_itemAdded a,
                                         itemRemoved = a_itemRemoved a,
                                         clueAdded = a_clueAdded a,
                                         memoryTriggered = a_memoryTriggered a \<rparr>,
                        error = None,
                        toolCallId = fc_id fc,
                        functionName = fc_name fc \<rparr>)
         | None \<Rightarrow>
             (case find_part (\<lambda>p. truthy_string (part_text p)) (candidate_parts candidate) of
                Some textPart \<Rightarrow>
                  (case part_text textPart of
                     Some t \<Rightarrow> Inr (text_only t)
                   | None \<Rightarrow> Inr (text_only ''...''))
              | None \<Rightarrow> Inr (text_only ''...'')))"

section \<open>The story session (geminiService.ts)\<close>

text \<open>
  \<^verbatim>\<open>chatSession.sendMessage\<close> either rejects or resolves with a reply; the session is
  the module's variable \<^verbatim>\<open>chatSession\<close>, \<open>None\<close> while it is \<^verbatim>\<open>null\<close>.
\<close>

datatype SendResult = Rejects | Resolves GenerateContentResponse

type_synonym Chat = "string \<Rightarrow> SendResult"

definition session_lost :: Response where
  "session_lost =
     \<lparr> narrative = ''Game session lost. Please restart.'', updates = None,
       error = Some True, toolCallId = None, functionName = None \<rparr>"

definition api_error :: Response where
  "api_error =
     \<lparr> narrative = ''The whispers are too loud... (API Error)'', updates = None,
       error = Some True, toolCallId = None, functionName = None \<rparr>"

definition init_error :: Response where
  "init_error =
     \<lparr> narrative = ''Connection to the void failed. (Check API Key)'', updates = None,
       error = Some True, toolCallId = None, functionName = None \<rparr>"

text \<open>\<^verbatim>\<open>xs.join(sep)\<close>\<close>

fun join :: "string \<Rightarrow> string list \<Rightarrow> string" where
  "join sep [] = []"
| "join sep [x] = x"
| "join sep (x # y # ys) = x @ sep @ join sep (y # ys)"

text \<open>
  The template literals of \<^verbatim>\<open>sendPlayerAction\<close>. \<^verbatim>\<open>JSON.stringify\<close> is the host's; it is
  a parameter.
\<close>

definition newline :: string where
  "newline = [CHR 0x0A]"

definition context_string :: "((string \<times> int) list \<Rightarrow> string) \<Rightarrow> GameState \<Rightarrow> string" where
  "context_string JSON_stringify currentState =
     newline @ ''    [Current State]'' @
     newline @ ''    Location: '' @ currentLocation currentState @
     newline @ ''    Inventory: '' @ join '', '' (inventory currentState) @
     newline @ ''    Clues: '' @ join '', '' (map clue_name (clues currentState)) @
     newline @ ''    Trust Levels: '' @ JSON_stringify (trust currentState) @
     newline @ ''  ''"

definition player_message :: "((string \<times> int) list \<Rightarrow> string) \<Rightarrow> string \<Rightarrow> GameState \<Rightarrow> string" where
  "player_message JSON_stringify action currentState =
     context_string JSON_stringify currentState @ newline @ ''Player Action: '' @ action"

text \<open>
  The result is the list of messages handed to \<^verbatim>\<open>sendMessage\<close> and the object the
  promise resolves with. The \<^verbatim>\<open>try\<close> block covers the call and \<^verbatim>\<open>processResponse\<close>.
\<close>

definition sendPlayerAction ::
  "((string \<times> int) list \<Rightarrow> string) \<Rightarrow> Chat option \<Rightarrow> string \<Rightarrow> GameState \<Rightarrow> string list \<times> Response" where
  "sendPlayerAction JSON_stringify chatSession action currentState =
     (case chatSession of
        None \<Rightarrow> ([], session_lost)
      | Some chat \<Rightarrow>
          (let message = player_message JSON_stringify action currentState
           in case chat message of
                Rejects \<Rightarrow> ([message], api_error)
              | Resolves result \<Rightarrow>
                  (case processResponse result of
                     Inl e \<Rightarrow> ([message], api_error)
                   | Inr response \<Rightarrow> ([message], response))))"

definition opening_message :: string where
  "opening_message = ''The player has just arrived at the Greybridge Station. Begin the story.''"

text \<open>
  \<^verbatim>\<open>initializeGame\<close>: \<open>created\<close> is what \<^verbatim>\<open>ai.chats.create\<close> returns, \<open>None\<close> when it
  throws. The variable is assigned before the first message is sent. The result is the
  new value of \<^verbatim>\<open>chatSession\<close> and the object the promise resolves with.
\<close>

definition initializeGame :: "Chat option \<Rightarrow> Chat option \<Rightarrow> Chat option \<times> Response" where
  "initializeGame chatSession created =
     (case created of
        None \<Rightarrow> (chatSession, init_error)
      | Some chat \<Rightarrow>
          (case chat opening_message of
             Rejects \<Rightarrow> (Some chat, init_error)
           | Resolves result \<Rightarrow>
               (case processResponse result of
                  Inl e \<Rightarrow> (Some chat, init_error)
                | Inr response \<Rightarrow> (Some chat, response))))"

section \<open>The turn controller (App.tsx)\<close>

text \<open>The component's state variables.\<close>

record App =
  gameState :: GameState
  input :: string
  isLoading :: bool
  isNotebookOpen :: bool
  showMemoryOverlay :: bool

definition initialApp :: App where
  "initialApp =
     \<lparr> gameState = initialGameState, input = [], isLoading = False, isNotebookOpen = False,
       showMemoryOverlay = False \<rparr>"

text \<open>
  \<^verbatim>\<open>handleApiResponse\<close>: \<^verbatim>\<open>response.updates.memoryTriggered\<close> is read while the entry is
  built, before any state is set, and throws when \<^verbatim>\<open>updates\<close> is undefined. The timer
  that clears the overlay after 3000 ms is \<open>memoryOverlay_timeout\<close>.
\<close>

definition handleApiResponse :: "Readings \<Rightarrow> Response \<Rightarrow> App \<Rightarrow> JsError + App" where
  "handleApiResponse r response app =
     (case updates response of
        None \<Rightarrow> Inl TypeError
      | Some u \<Rightarrow>
          Inr (app\<lparr> gameState := apply_update r (narrative response) u (gameState app),
                    showMemoryOverlay :=
                      (if truthy_bool (memoryTriggered u) then True else showMemoryOverlay app) \<rparr>))"

definition memoryOverlay_timeout :: "App \<Rightarrow> App" where
  "memoryOverlay_timeout app = app\<lparr>showMemoryOverlay := False\<rparr>"

definition playerEntry :: "int \<Rightarrow> int \<Rightarrow> string \<Rightarrow> NarrativeEntry" where
  "playerEntry now_id now_ts actionText =
     \<lparr> entry_id = toString now_id, speaker = ''Alex'', entry_text = actionText,
       entry_type = ''action'', timestamp = now_ts \<rparr>"

text \<open>
  \<^verbatim>\<open>handleAction\<close> is made by \<^verbatim>\<open>useCallback\<close> with the dependencies \<^verbatim>\<open>gameState\<close>
  and \<^verbatim>\<open>isLoading\<close>: the function captures the values these two had at the render
  that made it, and a later render makes a new function. A handler is the pair of the
  captured values; \<open>render\<close> is the handler the component holds once it has rendered
  the state.
\<close>

record Handler =
  h_gameState :: GameState
  h_isLoading :: bool

definition render :: "App \<Rightarrow> Handler" where
  "render app = \<lparr> h_gameState = gameState app, h_isLoading = isLoading app \<rparr>"

text \<open>
  \<^verbatim>\<open>handleAction\<close> up to its \<^verbatim>\<open>await\<close>: the guard, the player's entry, the busy flag.
  The guard reads the flag the handler has captured; the two setters act on the
  component's current state. The boolean tells whether a turn was started.
\<close>

definition handleAction_begin :: "Handler \<Rightarrow> int \<Rightarrow> int \<Rightarrow> string \<Rightarrow> App \<Rightarrow> App \<times> bool" where
  "handleAction_begin h now_id now_ts actionText app =
     (if h_isLoading h then (app, False)
      else (app\<lparr> gameState := (gameState app)
                     \<lparr>narrativeHistory := narrativeHistory (gameState app) @
                        [playerEntry now_id now_ts actionText]\<rparr>,
                 isLoading := True \<rparr>, True))"

text \<open>
  \<^verbatim>\<open>handleAction\<close> after the \<^verbatim>\<open>await\<close>. The result is the state the component is left
  in and the exception that leaves the function, if any.
\<close>

definition handleAction_resume :: "Readings \<Rightarrow> Response \<Rightarrow> App \<Rightarrow> App \<times> JsError option" where
  "handleAction_resume r response app =
     (case handleApiResponse r response app of
        Inl e \<Rightarrow> (app, Some e)
      | Inr app' \<Rightarrow> (app'\<lparr>isLoading := False, input := []\<rparr>, None))"

text \<open>
  One whole turn through the handler \<open>h\<close>. \<^verbatim>\<open>sendPlayerAction\<close> is given the
  \<^verbatim>\<open>gameState\<close> the handler has captured.
\<close>

definition handleAction ::
  "((string \<times> int) list \<Rightarrow> string) \<Rightarrow> Chat option \<Rightarrow> Handler \<Rightarrow> int \<Rightarrow> int \<Rightarrow> Readings \<Rightarrow> string
     \<Rightarrow> App \<Rightarrow> App \<times> JsError option" where
  "handleAction JSON_stringify chatSession h now_id now_ts r actionText app =
     (case handleAction_begin h now_id now_ts actionText app of
        (app1, False) \<Rightarrow> (app1, None)
      | (app1, True) \<Rightarrow>
          handleAction_resume r
            (snd (sendPlayerAction JSON_stringify chatSession actionText (h_gameState h))) app1)"

text \<open>
  The effect that starts the game, after \<^verbatim>\<open>initializeGame\<close> has answered: an answer with
  the error flag becomes a System entry, any other goes through \<^verbatim>\<open>handleApiResponse\<close>.
\<close>

definition start_resume :: "int \<Rightarrow> int \<Rightarrow> Readings \<Rightarrow> Response \<Rightarrow> App \<Rightarrow> App \<times> JsError option" where
  "start_resume now_id now_ts r response app =
     (if truthy_bool (error response)
      then (app\<lparr> gameState := (gameState app)
                     \<lparr>narrativeHistory := narrativeHistory (gameState app) @
                        [\<lparr> entry_id = toString now_id, speaker = ''System'',
                           entry_text = ''Failed to connect to the story engine. Please check your API Key configuration.'',
                           entry_type = ''action'', timestamp = now_ts \<rparr>]\<rparr>,
                 isLoading := False \<rparr>, None)
      else (case handleApiResponse r response app of
              Inl e \<Rightarrow> (app, Some e)
            | Inr app' \<Rightarrow> (app'\<lparr>isLoading := False\<rparr>, None)))"

text \<open>
  A clock that gives the same millisecond \<open>t\<close> to every reading of one call. The ISO
  format of \<^verbatim>\<open>discoveredAt\<close> is not modelled: the numeral of \<open>t\<close> stands for it.
\<close>

definition clock_at :: "int \<Rightarrow> Readings" where
  "clock_at t = \<lparr> now_entry_id = t, now_entry_ts = t, now_clue_id = t, iso_clue = toString t \<rparr>"

text \<open>The value of a decimal numeral, read digit by digit.\<close>

definition digits_value :: "string \<Rightarrow> nat" where
  "digits_value cs = foldl (\<lambda>a c. 10 * a + (of_char c - 48)) 0 cs"

text \<open>An update that only adds a clue.\<close>

definition add_clue :: "string \<Rightarrow> string \<Rightarrow> Updates" where
  "add_clue n d = no_updates\<lparr>clueAdded := Some \<lparr>name = n, description = d\<rparr>\<rparr>"

text \<open>A reply whose only part is a function call that carries no \<^verbatim>\<open>args\<close>.\<close>

definition call_without_args :: GenerateContentResponse where
  "call_without_args =
     \<lparr>candidates = Some [\<lparr>content = Some \<lparr>parts = Some
        [\<lparr>functionCall = Some \<lparr>args = None, fc_id = None, fc_name = Some ''updateGameState''\<rparr>,
          part_text = None\<rparr>]\<rparr>\<rparr>]\<rparr>"

section \<open>Frame properties of the reducer\<close>

text \<open>
  C7. Applying an update with all optional fields absent changes only
  \<^verbatim>\<open>narrativeHistory\<close>, by exactly one appended entry (spoken by the GM, carrying the
  narrative, of type description); and no update of any shape changes \<^verbatim>\<open>phase\<close>,
  \<^verbatim>\<open>trust\<close> or \<^verbatim>\<open>puzzleActive\<close>.
\<close>

theorem apply_update_frame:
  "apply_update r narr no_updates s =
     s\<lparr>narrativeHistory := narrativeHistory s @
        [\<lparr> entry_id = toString (now_entry_id r), speaker = ''GM'', entry_text = narr,
           entry_type = ''description'', timestamp = now_entry_ts r \<rparr>]\<rparr>
   \<and> phase (apply_update r narr u s) = phase s
   \<and> trust (apply_update r narr u s) = trust s
   \<and> puzzleActive (apply_update r narr u s) = puzzleActive s"
  by (simp add: apply_update_def no_updates_def newHistory_def truthy_bool_def Let_def
      split: option.splits)

section \<open>Facts about the reducer, field by field\<close>

lemma Set_insert_all_distinct: "distinct acc \<Longrightarrow> distinct (Set_insert_all acc xs)"
  by (induction xs arbitrary: acc) auto

lemma Set_insert_all_set: "set (Set_insert_all acc xs) = set acc \<union> set xs"
  by (induction xs arbitrary: acc) auto

lemma new_Set_distinct: "distinct (new_Set xs)"
  by (simp add: new_Set_def Set_insert_all_distinct)

lemma new_Set_set: "set (new_Set xs) = set xs"
  by (simp add: new_Set_def Set_insert_all_set)

lemma count_list_distinct: "distinct xs \<Longrightarrow> x \<in> set xs \<Longrightarrow> count_list xs x = 1"
  by (induction xs) (auto simp: count_list_0_iff)

lemma inventory_apply_update:
  "inventory (apply_update r narr u s) =
     (if truthy_string (itemRemoved u) then filter (\<lambda>i. i \<noteq> the (itemRemoved u)) (inventory s)
      else if truthy_string (itemAdded u) then new_Set (inventory s @ [the (itemAdded u)])
      else inventory s)"
  by (simp add: apply_update_def truthy_string_def Let_def split: option.splits)

lemma clues_apply_update:
  "clues (apply_update r narr u s) =
     clues s @ (case clueAdded u of None \<Rightarrow> [] | Some c \<Rightarrow> [newClue r c])"
  by (simp add: apply_update_def Let_def split: option.splits)

lemma currentLocation_apply_update:
  "currentLocation (apply_update r narr u s) =
     (case newLocation u of
        None \<Rightarrow> currentLocation s
      | Some l \<Rightarrow> if l = [] then currentLocation s else l)"
  by (simp add: apply_update_def Let_def split: option.splits)

lemma clues_apply_updates:
  "\<exists>cs. clues (apply_updates us s) = clues s @ cs \<and>
        map clue_id cs = map toString (clue_id_readings us)"
proof (induction us arbitrary: s)
  case Nil
  then show ?case by simp
next
  case (Cons x us)
  obtain r narr u where x: "x = (r, narr, u)" by (cases x)
  from Cons.IH [of "apply_update r narr u s"]
  obtain cs where cs: "clues (apply_updates us (apply_update r narr u s)) =
      clues (apply_update r narr u s) @ cs"
      "map clue_id cs = map toString (clue_id_readings us)" by blast
  show ?case
  proof (cases "clueAdded u")
    case None
    with cs x show ?thesis by (simp add: clues_apply_update)
  next
    case (Some c)
    with cs x have "clues (apply_updates (x # us) s) = clues s @ (newClue r c # cs)"
      by (simp add: clues_apply_update)
    moreover from cs x Some have
      "map clue_id (newClue r c # cs) = map toString (clue_id_readings (x # us))"
      by (simp add: newClue_def)
    ultimately show ?thesis by blast
  qed
qed

lemma currentLocation_apply_updates:
  "currentLocation s \<in> set LocationId_values \<Longrightarrow> list_all names_known_location us \<Longrightarrow>
   currentLocation (apply_updates us s) \<in> set LocationId_values"
proof (induction us arbitrary: s)
  case Nil
  then show ?case by simp
next
  case (Cons x us)
  obtain r narr u where x: "x = (r, narr, u)" by (cases x)
  from Cons.prems x have "currentLocation (apply_update r narr u s) \<in> set LocationId_values"
    by (auto simp: currentLocation_apply_update names_known_location_def split: option.splits)
  with Cons.IH [of "apply_update r narr u s"] Cons.prems x show ?case by simp
qed

section \<open>Inventory\<close>

text \<open>
  C5. The inventory has set semantics: an update applied to a state whose inventory has
  no duplicates leaves an inventory without duplicates; and adding the same (non-empty)
  item twice in a row, for instance \<^verbatim>\<open>"Key"\<close>, yields an inventory that contains it
  exactly once.
\<close>

theorem apply_update_inventory_distinct:
  "(distinct (inventory s) \<longrightarrow> distinct (inventory (apply_update r narr u s)))
   \<and> (k \<noteq> [] \<longrightarrow>
        count_list
          (inventory (apply_update r2 narr2 (no_updates\<lparr>itemAdded := Some k\<rparr>)
             (apply_update r1 narr1 (no_updates\<lparr>itemAdded := Some k\<rparr>) s))) k = 1)"
proof (intro conjI impI)
  assume "distinct (inventory s)"
  then show "distinct (inventory (apply_update r narr u s))"
    by (simp add: inventory_apply_update new_Set_distinct)
next
  assume k: "k \<noteq> []"
  let ?u = "no_updates\<lparr>itemAdded := Some k\<rparr>"
  have "inventory (apply_update r2 narr2 ?u (apply_update r1 narr1 ?u s)) =
          new_Set (new_Set (inventory s @ [k]) @ [k])"
    using k by (simp add: inventory_apply_update truthy_string_def no_updates_def)
  moreover have "distinct (new_Set (new_Set (inventory s @ [k]) @ [k]))"
    by (rule new_Set_distinct)
  moreover have "k \<in> set (new_Set (new_Set (inventory s @ [k]) @ [k]))"
    by (simp add: new_Set_set)
  ultimately show "count_list
      (inventory (apply_update r2 narr2 ?u (apply_update r1 narr1 ?u s))) k = 1"
    by (simp add: count_list_distinct)
qed

theorem apply_update_inventory_distinct_witness:
  "distinct (inventory initialGameState)
   \<and> distinct (inventory (apply_update (clock_at 1) ''You find a key.''
        (no_updates\<lparr>itemAdded := Some ''Key''\<rparr>) initialGameState))
   \<and> ''Key'' \<noteq> []
   \<and> count_list
        (inventory (apply_update (clock_at 2) ''Again.'' (no_updates\<lparr>itemAdded := Some ''Key''\<rparr>)
           (apply_update (clock_at 1) ''You find a key.'' (no_updates\<lparr>itemAdded := Some ''Key''\<rparr>)
              initialGameState))) ''Key'' = 1"
proof -
  have d: "distinct (inventory initialGameState)" by (simp add: initialGameState_def)
  have k: "''Key'' \<noteq> []" by simp
  from apply_update_inventory_distinct
    [of initialGameState "clock_at 1" "''You find a key.''" "no_updates\<lparr>itemAdded := Some ''Key''\<rparr>"
        "''Key''" "clock_at 2" "''Again.''" "clock_at 1" "''You find a key.''"] d k
  show ?thesis by blast
qed

text \<open>
  C2. The statements run in the order 1 to 5, but the removal filters \<^verbatim>\<open>prev.inventory\<close>,
  not the inventory the addition has just produced: with \<^verbatim>\<open>itemAdded: "Key"\<close> and
  \<^verbatim>\<open>itemRemoved: "Lamp"\<close> on the empty inventory, the result is empty and does not
  contain the added item.
\<close>

theorem apply_update_add_then_remove:
  "inventory (apply_update r narr
      (no_updates\<lparr>itemAdded := Some ''Key'', itemRemoved := Some ''Lamp''\<rparr>) initialGameState) = []
   \<and> ''Key'' \<notin> set (inventory (apply_update r narr
      (no_updates\<lparr>itemAdded := Some ''Key'', itemRemoved := Some ''Lamp''\<rparr>) initialGameState))"
  by (simp add: inventory_apply_update truthy_string_def no_updates_def initialGameState_def)

section \<open>Location\<close>

text \<open>
  C3, as stated, fails: from the initial state, whose location is in the closed set, the
  update \<^verbatim>\<open>newLocation: "atlantis"\<close> makes \<^verbatim>\<open>"atlantis"\<close> the current location.
\<close>

theorem apply_update_unknown_location:
  "currentLocation initialGameState \<in> set LocationId_values
   \<and> ''atlantis'' \<notin> set LocationId_values
   \<and> currentLocation (apply_update (clock_at 1) ''You sink.''
        (no_updates\<lparr>newLocation := Some ''atlantis''\<rparr>) initialGameState) = ''atlantis''"
  by (simp add: currentLocation_apply_update no_updates_def initialGameState_def
      LocationId_values_def Station_def TownSquare_def OldLibrary_def Observatory_def
      Forest_def MayasHouse_def)

text \<open>
  C3, amended. A present, non-empty \<^verbatim>\<open>newLocation\<close> replaces the current location as
  it is, an absent or empty one leaves it unchanged; so the current location stays in the
  closed set along any sequence of updates, from a state where it is, when every update
  of the sequence names no location, the empty string or a member of the set.
\<close>

theorem apply_update_location:
  "currentLocation (apply_update r narr u s) =
     (case newLocation u of
        None \<Rightarrow> currentLocation s
      | Some l \<Rightarrow> if l = [] then currentLocation s else l)
   \<and> (currentLocation s' \<in> set LocationId_values \<and> list_all names_known_location us
        \<longrightarrow> currentLocation (apply_updates us s') \<in> set LocationId_values)"
  by (simp add: currentLocation_apply_update currentLocation_apply_updates)

theorem apply_update_location_witness:
  "currentLocation initialGameState \<in> set LocationId_values
   \<and> list_all names_known_location
        [(clock_at 1, ''You walk.'', no_updates\<lparr>newLocation := Some Forest\<rparr>),
         (clock_at 2, ''You wait.'', no_updates)]
   \<and> currentLocation (apply_updates
        [(clock_at 1, ''You walk.'', no_updates\<lparr>newLocation := Some Forest\<rparr>),
         (clock_at 2, ''You wait.'', no_updates)] initialGameState) \<in> set LocationId_values"
proof -
  have a: "currentLocation initialGameState \<in> set LocationId_values"
    by (simp add: initialGameState_def LocationId_values_def)
  have b: "list_all names_known_location
        [(clock_at 1, ''You walk.'', no_updates\<lparr>newLocation := Some Forest\<rparr>),
         (clock_at 2, ''You wait.'', no_updates)]"
    by (simp add: names_known_location_def no_updates_def LocationId_values_def)
  from apply_update_location [of _ _ _ _ initialGameState
        "[(clock_at 1, ''You walk.'', no_updates\<lparr>newLocation := Some Forest\<rparr>),
          (clock_at 2, ''You wait.'', no_updates)]"] a b
  show ?thesis by blast
qed

section \<open>Decimal numerals are unambiguous\<close>

lemma of_char_digit_char: "d < 10 \<Longrightarrow> of_char (digit_char d) = (48 + d :: nat)"
  by (simp add: digit_char_def of_char_of)

lemma digits_value_snoc: "digits_value (cs @ [c]) = 10 * digits_value cs + (of_char c - 48)"
  by (simp add: digits_value_def)

lemma digits_value_nat_toString: "digits_value (nat_toString n) = n"
proof (induction n rule: nat_toString.induct)
  case (1 n)
  show ?case
  proof (cases "n < 10")
    case True
    then show ?thesis
      by (subst nat_toString.simps) (simp add: digits_value_def of_char_digit_char)
  next
    case False
    with 1 show ?thesis
      by (subst nat_toString.simps) (simp add: digits_value_snoc of_char_digit_char)
  qed
qed

lemma nat_toString_inj: "nat_toString m = nat_toString n \<Longrightarrow> m = n"
  by (metis digits_value_nat_toString)

lemma digit_char_not_minus: "d < 10 \<Longrightarrow> digit_char d \<noteq> CHR ''-''"
proof
  assume d: "d < 10" and "digit_char d = CHR ''-''"
  then have "(of_char (digit_char d) :: nat) = of_char CHR ''-''" by simp
  with d show False by (simp add: of_char_digit_char)
qed

lemma nat_toString_hd: "\<exists>c cs. nat_toString n = c # cs \<and> c \<noteq> CHR ''-''"
proof (induction n rule: nat_toString.induct)
  case (1 n)
  show ?case
  proof (cases "n < 10")
    case True
    then show ?thesis
      by (subst nat_toString.simps) (simp add: digit_char_not_minus)
  next
    case False
    with 1 obtain c cs where "nat_toString (n div 10) = c # cs" "c \<noteq> CHR ''-''" by blast
    with False show ?thesis
      by (subst nat_toString.simps) simp
  qed
qed

lemma toString_inj: "toString i = toString j \<Longrightarrow> i = j"
proof -
  assume eq: "toString i = toString j"
  obtain c cs where i: "nat_toString (nat i) = c # cs" "c \<noteq> CHR ''-''"
    using nat_toString_hd by blast
  obtain d ds where j: "nat_toString (nat j) = d # ds" "d \<noteq> CHR ''-''"
    using nat_toString_hd by blast
  show "i = j"
  proof (cases "i < 0")
    case True
    show ?thesis
    proof (cases "j < 0")
      case True
      with \<open>i < 0\<close> eq have "nat_toString (nat (- i)) = nat_toString (nat (- j))"
        by (simp add: toString_def)
      then have "nat (- i) = nat (- j)" by (rule nat_toString_inj)
      with True \<open>i < 0\<close> show ?thesis by simp
    next
      case False
      with \<open>i < 0\<close> eq j show ?thesis by (simp add: toString_def)
    qed
  next
    case False
    show ?thesis
    proof (cases "j < 0")
      case True
      with False eq i show ?thesis by (simp add: toString_def)
    next
      case jf: False
      with False eq have "nat_toString (nat i) = nat_toString (nat j)"
        by (simp add: toString_def)
      then have "nat i = nat j" by (rule nat_toString_inj)
      with False jf show ?thesis by simp
    qed
  qed
qed

lemma inj_toString: "inj toString"
  by (rule injI) (rule toString_inj)

section \<open>Clues\<close>

text \<open>
  C6, as stated, fails: a clue's id is the decimal numeral of the clock at its creation,
  so two clues created in the same millisecond share their id.
\<close>

theorem clue_ids_collide:
  "\<not> distinct (map clue_id (clues (apply_updates
        [(clock_at 1000, ''You find a note.'', add_clue ''Strange Note'' ''...''),
         (clock_at 1000, ''You find a map.'', add_clue ''Old Map'' ''...'')]
        initialGameState)))"
  by (simp add: clues_apply_update add_clue_def no_updates_def initialGameState_def
      newClue_def clock_at_def)

text \<open>
  C6, amended. Along any sequence of updates the clues only grow: their number does not
  decrease and the clues there before stay a prefix, unchanged. The ids of the clues are
  pairwise distinct at the end when they were at the start, the clock readings taken for
  the new clues' ids are pairwise distinct, and none of them is the numeral of an id
  already there.
\<close>

theorem clues_append_only:
  "length (clues s) \<le> length (clues (apply_updates us s))
   \<and> take (length (clues s)) (clues (apply_updates us s)) = clues s
   \<and> (distinct (map clue_id (clues s)) \<and> distinct (clue_id_readings us)
        \<and> list_all (\<lambda>t. toString t \<notin> set (map clue_id (clues s))) (clue_id_readings us)
       \<longrightarrow> distinct (map clue_id (clues (apply_updates us s))))"
proof -
  obtain cs where cs: "clues (apply_updates us s) = clues s @ cs"
      "map clue_id cs = map toString (clue_id_readings us)"
    using clues_apply_updates by blast
  have "length (clues s) \<le> length (clues (apply_updates us s))"
    using cs by simp
  moreover have "take (length (clues s)) (clues (apply_updates us s)) = clues s"
    using cs by simp
  moreover have "distinct (map clue_id (clues (apply_updates us s)))"
    if d: "distinct (map clue_id (clues s))" "distinct (clue_id_readings us)"
      and fresh: "list_all (\<lambda>t. toString t \<notin> set (map clue_id (clues s))) (clue_id_readings us)"
  proof -
    have "distinct (map toString (clue_id_readings us))"
      using d(2) inj_toString by (simp add: distinct_map inj_on_subset [OF _ subset_UNIV])
    moreover have "set (map clue_id (clues s)) \<inter> set (map toString (clue_id_readings us)) = {}"
    proof (rule ccontr)
      assume "set (map clue_id (clues s)) \<inter> set (map toString (clue_id_readings us)) \<noteq> {}"
      then obtain x where x: "x \<in> set (map clue_id (clues s))"
          "x \<in> set (map toString (clue_id_readings us))" by blast
      from x(2) obtain t where t: "t \<in> set (clue_id_readings us)" "x = toString t" by auto
      from fresh t(1) have "toString t \<notin> set (map clue_id (clues s))"
        by (simp add: list_all_iff)
      with x(1) t(2) show False by simp
    qed
    ultimately show ?thesis
      using d(1) cs by simp
  qed
  ultimately show ?thesis by blast
qed

theorem clues_append_only_witness:
  "distinct (map clue_id (clues initialGameState))
   \<and> distinct (clue_id_readings
        [(clock_at 1000, ''You find a note.'', add_clue ''Strange Note'' ''...''),
         (clock_at 1001, ''You find a map.'', add_clue ''Old Map'' ''...'')])
   \<and> list_all (\<lambda>t. toString t \<notin> set (map clue_id (clues initialGameState)))
        (clue_id_readings
          [(clock_at 1000, ''You find a note.'', add_clue ''Strange Note'' ''...''),
           (clock_at 1001, ''You find a map.'', add_clue ''Old Map'' ''...'')])
   \<and> distinct (map clue_id (clues (apply_updates
        [(clock_at 1000, ''You find a note.'', add_clue ''Strange Note'' ''...''),
         (clock_at 1001, ''You find a map.'', add_clue ''Old Map'' ''...'')]
        initialGameState)))
   \<and> length (clues (apply_updates
        [(clock_at 1000, ''You find a note.'', add_clue ''Strange Note'' ''...''),
         (clock_at 1001, ''You find a map.'', add_clue ''Old Map'' ''...'')]
        initialGameState)) = 2"
proof -
  let ?us = "[(clock_at 1000, ''You find a note.'', add_clue ''Strange Note'' ''...''),
         (clock_at 1001, ''You find a map.'', add_clue ''Old Map'' ''...'')]"
  have a: "distinct (map clue_id (clues initialGameState))"
    by (simp add: initialGameState_def)
  have b: "distinct (clue_id_readings ?us)"
    by (simp add: add_clue_def no_updates_def clock_at_def)
  have c: "list_all (\<lambda>t. toString t \<notin> set (map clue_id (clues initialGameState)))
        (clue_id_readings ?us)"
    by (simp add: initialGameState_def add_clue_def no_updates_def)
  have l: "length (clues (apply_updates ?us initialGameState)) = 2"
    by (simp add: clues_apply_update add_clue_def no_updates_def initialGameState_def)
  from clues_append_only [of initialGameState ?us] a b c l
  show ?thesis by blast
qed

section \<open>Determinism\<close>

text \<open>
  C4, as stated, fails: the same state and the same update, applied at two different
  times, give two different states (the new entry's id and timestamp are the clock's).
\<close>

theorem apply_update_depends_on_clock:
  "apply_update (clock_at 1000) ''You wait.'' no_updates initialGameState
   \<noteq> apply_update (clock_at 1001) ''You wait.'' no_updates initialGameState"
proof
  assume "apply_update (clock_at 1000) ''You wait.'' no_updates initialGameState
      = apply_update (clock_at 1001) ''You wait.'' no_updates initialGameState"
  then have "map timestamp (narrativeHistory
        (apply_update (clock_at 1000) ''You wait.'' no_updates initialGameState))
      = map timestamp (narrativeHistory
        (apply_update (clock_at 1001) ''You wait.'' no_updates initialGameState))"
    by simp
  then show False
    by (simp add: apply_update_def Let_def no_updates_def newHistory_def clock_at_def
        initialGameState_def)
qed

lemma narrativeHistory_apply_update:
  "narrativeHistory (apply_update r narr u s) = narrativeHistory s @ [newHistory r narr u]"
  by (simp add: apply_update_def Let_def split: option.splits)

lemma untouched_apply_update:
  "phase (apply_update r narr u s) = phase s"
  "trust (apply_update r narr u s) = trust s"
  "puzzleActive (apply_update r narr u s) = puzzleActive s"
  "GameState.more (apply_update r narr u s) = GameState.more s"
  by (simp_all add: apply_update_def Let_def split: option.splits)

text \<open>
  C4, amended. The result is a function of the state, the update and the clock readings
  of the call; two calls on the same state and update, at any two times, give results
  that are equal but for the id and timestamp of the appended entry and the id and
  \<^verbatim>\<open>discoveredAt\<close> of an appended clue.
\<close>

theorem apply_update_clock_independent:
  "apply_update r1 narr u s =
     (apply_update r2 narr u s)
       \<lparr> narrativeHistory := narrativeHistory s @
            [(newHistory r2 narr u)
               \<lparr>entry_id := toString (now_entry_id r1), timestamp := now_entry_ts r1\<rparr>],
         clues :=
           (case clueAdded u of
              None \<Rightarrow> clues s
            | Some c \<Rightarrow> clues s @
                [(newClue r2 c)\<lparr>clue_id := toString (now_clue_id r1), discoveredAt := iso_clue r1\<rparr>]) \<rparr>"
proof (rule GameState.equality)
  show "narrativeHistory (apply_update r1 narr u s) = narrativeHistory ((apply_update r2 narr u s)
       \<lparr> narrativeHistory := narrativeHistory s @
            [(newHistory r2 narr u)
               \<lparr>entry_id := toString (now_entry_id r1), timestamp := now_entry_ts r1\<rparr>],
         clues :=
           (case clueAdded u of
              None \<Rightarrow> clues s
            | Some c \<Rightarrow> clues s @
                [(newClue r2 c)\<lparr>clue_id := toString (now_clue_id r1), discoveredAt := iso_clue r1\<rparr>]) \<rparr>)"
    by (simp add: narrativeHistory_apply_update newHistory_def)
  show "clues (apply_update r1 narr u s) = clues ((apply_update r2 narr u s)
       \<lparr> narrativeHistory := narrativeHistory s @
            [(newHistory r2 narr u)
               \<lparr>entry_id := toString (now_entry_id r1), timestamp := now_entry_ts r1\<rparr>],
         clues :=
           (case clueAdded u of
              None \<Rightarrow> clues s
            | Some c \<Rightarrow> clues s @
                [(newClue r2 c)\<lparr>clue_id := toString (now_clue_id r1), discoveredAt := iso_clue r1\<rparr>]) \<rparr>)"
    by (simp add: clues_apply_update newClue_def split: option.splits)
qed (simp_all add: currentLocation_apply_update inventory_apply_update untouched_apply_update)

section \<open>The normaliser\<close>

lemma find_first:
  "list_all (\<lambda>q. \<not> P q) ps \<Longrightarrow> P p \<Longrightarrow> find P (ps @ p # qs) = Some p"
  by (induction ps) auto

lemma find_none: "list_all (\<lambda>q. \<not> P q) ps \<Longrightarrow> find P ps = None"
  by (induction ps) auto

text \<open>
  C9. Every other access of \<^verbatim>\<open>processResponse\<close> goes through \<^verbatim>\<open>?.\<close> or a truthiness
  test, but \<^verbatim>\<open>args\<close> is read from the function call and dereferenced without one: on
  a reply whose function call carries no \<^verbatim>\<open>args\<close>, \<^verbatim>\<open>processResponse\<close> throws instead
  of returning an update.
\<close>

theorem processResponse_throws_without_args:
  "processResponse
     \<lparr>candidates = Some [\<lparr>content = Some \<lparr>parts = Some
        [\<lparr>functionCall = Some \<lparr>args = None, fc_id = None, fc_name = Some ''updateGameState''\<rparr>,
          part_text = None\<rparr>]\<rparr>\<rparr>]\<rparr>
   = Inl TypeError"
  by (simp add: processResponse_def first_candidate_def candidate_parts_def find_part_def)

text \<open>
  What \<^verbatim>\<open>processResponse\<close> does on the other replies. The first part with a function
  call decides: when it carries \<^verbatim>\<open>args\<close>, they are copied field by field. With no
  function call in any part, the first part with a non-empty text gives a text-only
  answer; with no parts, or parts with neither, the answer is the placeholder
  \<^verbatim>\<open>"..."\<close>. The text-only and placeholder answers have every optional field absent.
\<close>

lemma processResponse_cases:
  "(candidate_parts (first_candidate result1) = Some (ps1 @ p1 # qs1)
      \<and> list_all (\<lambda>q. functionCall q = None) ps1
      \<and> functionCall p1 = Some fc \<and> args fc = Some a
    \<longrightarrow> processResponse result1 =
          Inr \<lparr> narrative = a_narrative a,
                updates = Some \<lparr> newLocation = a_newLocation a, itemAdded = a_itemAdded a,
                                 itemRemoved = a_itemRemoved a, clueAdded = a_clueAdded a,
                                 memoryTriggered = a_memoryTriggered a \<rparr>,
                error = None, toolCallId = fc_id fc, functionName = fc_name fc \<rparr>)
   \<and> (candidate_parts (first_candidate result2) = Some (ps2 @ p2 # qs2)
      \<and> list_all (\<lambda>q. functionCall q = None) (ps2 @ p2 # qs2)
      \<and> list_all (\<lambda>q. \<not> truthy_string (part_text q)) ps2
      \<and> part_text p2 = Some t \<and> t \<noteq> []
    \<longrightarrow> processResponse result2 = Inr (text_only t))
   \<and> ((candidate_parts (first_candidate result3) = None
       \<or> candidate_parts (first_candidate result3) = Some ps3
          \<and> list_all (\<lambda>q. functionCall q = None) ps3
          \<and> list_all (\<lambda>q. \<not> truthy_string (part_text q)) ps3)
    \<longrightarrow> processResponse result3 = Inr (text_only ''...''))
   \<and> ((\<forall>p fc. find_part (\<lambda>q. functionCall q \<noteq> None)
                (candidate_parts (first_candidate result4)) = Some p
              \<and> functionCall p = Some fc \<longrightarrow> args fc \<noteq> None)
    \<longrightarrow> (\<exists>response. processResponse result4 = Inr response))"
proof (intro conjI impI)
  assume h: "candidate_parts (first_candidate result1) = Some (ps1 @ p1 # qs1)
      \<and> list_all (\<lambda>q. functionCall q = None) ps1
      \<and> functionCall p1 = Some fc \<and> args fc = Some a"
  then have "find (\<lambda>p. functionCall p \<noteq> None) (ps1 @ p1 # qs1) = Some p1"
    by (intro find_first) simp_all
  with h show "processResponse result1 =
          Inr \<lparr> narrative = a_narrative a,
                updates = Some \<lparr> newLocation = a_newLocation a, itemAdded = a_itemAdded a,
                                 itemRemoved = a_itemRemoved a, clueAdded = a_clueAdded a,
                                 memoryTriggered = a_memoryTriggered a \<rparr>,
                error = None, toolCallId = fc_id fc, functionName = fc_name fc \<rparr>"
    by (simp add: processResponse_def find_part_def)
next
  assume h: "candidate_parts (first_candidate result2) = Some (ps2 @ p2 # qs2)
      \<and> list_all (\<lambda>q. functionCall q = None) (ps2 @ p2 # qs2)
      \<and> list_all (\<lambda>q. \<not> truthy_string (part_text q)) ps2
      \<and> part_text p2 = Some t \<and> t \<noteq> []"
  then have "find (\<lambda>p. functionCall p \<noteq> None) (ps2 @ p2 # qs2) = None"
    by (intro find_none) simp
  moreover from h have "find (\<lambda>p. truthy_string (part_text p)) (ps2 @ p2 # qs2) = Some p2"
    by (intro find_first) (simp_all add: truthy_string_def)
  ultimately show "processResponse result2 = Inr (text_only t)"
    using h by (simp add: processResponse_def find_part_def)
next
  assume h: "candidate_parts (first_candidate result3) = None
       \<or> candidate_parts (first_candidate result3) = Some ps3
          \<and> list_all (\<lambda>q. functionCall q = None) ps3
          \<and> list_all (\<lambda>q. \<not> truthy_string (part_text q)) ps3"
  then show "processResponse result3 = Inr (text_only ''...'')"
  proof
    assume "candidate_parts (first_candidate result3) = None"
    then show ?thesis by (simp add: processResponse_def find_part_def)
  next
    assume s: "candidate_parts (first_candidate result3) = Some ps3
          \<and> list_all (\<lambda>q. functionCall q = None) ps3
          \<and> list_all (\<lambda>q. \<not> truthy_string (part_text q)) ps3"
    then have "find (\<lambda>p. functionCall p \<noteq> None) ps3 = None"
      by (intro find_none) simp
    moreover from s have "find (\<lambda>p. truthy_string (part_text p)) ps3 = None"
      by (intro find_none) simp
    ultimately show ?thesis
      using s by (simp add: processResponse_def find_part_def)
  qed
next
  assume h: "\<forall>p fc. find_part (\<lambda>q. functionCall q \<noteq> None)
                (candidate_parts (first_candidate result4)) = Some p
              \<and> functionCall p = Some fc \<longrightarrow> args fc \<noteq> None"
  show "\<exists>response. processResponse result4 = Inr response"
  proof (cases "find_part (\<lambda>q. functionCall q \<noteq> None)
                (candidate_parts (first_candidate result4))")
    case None
    then show ?thesis
      by (simp add: processResponse_def Let_def split: option.splits)
  next
    case (Some p)
    show ?thesis
    proof (cases "functionCall p")
      case None
      with Some show ?thesis
        by (simp add: processResponse_def Let_def split: option.splits)
    next
      case fc: (Some fc)
      with h Some obtain a where "args fc = Some a" by blast
      with Some fc show ?thesis
        by (simp add: processResponse_def Let_def)
    qed
  qed
qed


text \<open>
  In a player's turn the \<^verbatim>\<open>catch\<close> of \<^verbatim>\<open>sendPlayerAction\<close> turns that exception into
  the failure object, and the turn ends as the turn of a rejected call does.
\<close>

lemma sendPlayerAction_call_without_args:
  "snd (sendPlayerAction JSON_stringify (Some (\<lambda>message. Resolves call_without_args))
          action currentState) = api_error"
  by (simp add: sendPlayerAction_def processResponse_def first_candidate_def
      candidate_parts_def find_part_def call_without_args_def)

section \<open>The turn controller\<close>

text \<open>
  C10. With no session (\<^verbatim>\<open>chatSession\<close> is \<^verbatim>\<open>null\<close>), \<^verbatim>\<open>sendPlayerAction\<close> sends
  nothing and resolves with the fixed narrative "Game session lost. Please restart." and
  the error flag set.
\<close>

theorem sendPlayerAction_without_session:
  "sendPlayerAction JSON_stringify None action currentState =
     ([], \<lparr> narrative = ''Game session lost. Please restart.'', updates = None,
            error = Some True, toolCallId = None, functionName = None \<rparr>)"
  by (simp add: sendPlayerAction_def session_lost_def)

text \<open>
  C1. A turn whose service call rejects: \<^verbatim>\<open>sendPlayerAction\<close> answers with the failure
  object, which has no \<^verbatim>\<open>updates\<close>, and \<^verbatim>\<open>handleAction\<close> passes it to
  \<^verbatim>\<open>handleApiResponse\<close> without looking at the error flag. A \<^verbatim>\<open>TypeError\<close> leaves
  \<^verbatim>\<open>handleAction\<close>, no failure entry is added after the player's, and the busy flag
  stays set.
\<close>

theorem handleAction_service_rejects:
  "handleAction JSON_stringify (Some (\<lambda>message. Rejects)) (render initialApp)
      now_id now_ts r actionText initialApp =
     (initialApp
        \<lparr> gameState := initialGameState
             \<lparr>narrativeHistory :=
                [\<lparr> entry_id = toString now_id, speaker = ''Alex'', entry_text = actionText,
                   entry_type = ''action'', timestamp = now_ts \<rparr>]\<rparr>,
          isLoading := True \<rparr>,
      Some TypeError)"
  by (simp add: handleAction_def handleAction_begin_def handleAction_resume_def
      handleApiResponse_def sendPlayerAction_def api_error_def initialApp_def playerEntry_def
      initialGameState_def render_def)

text \<open>
  A reply whose function call carries no \<^verbatim>\<open>args\<close> ends the turn the same way.
\<close>

lemma handleAction_call_without_args:
  "handleAction JSON_stringify (Some (\<lambda>message. Resolves call_without_args)) (render initialApp)
      now_id now_ts r actionText initialApp =
     (initialApp
        \<lparr> gameState := initialGameState
             \<lparr>narrativeHistory := [playerEntry now_id now_ts actionText]\<rparr>,
          isLoading := True \<rparr>,
      Some TypeError)"
  by (simp add: handleAction_def handleAction_begin_def handleAction_resume_def
      handleApiResponse_def sendPlayerAction_call_without_args api_error_def initialApp_def
      initialGameState_def render_def)

text \<open>
  The effect that starts the game does test the error flag: a failed initialisation
  becomes one System entry, the busy flag is cleared and nothing is thrown.
\<close>

lemma start_resume_init_error:
  "start_resume now_id now_ts r init_error app =
     (app\<lparr> gameState := (gameState app)
              \<lparr>narrativeHistory := narrativeHistory (gameState app) @
                 [\<lparr> entry_id = toString now_id, speaker = ''System'',
                    entry_text = ''Failed to connect to the story engine. Please check your API Key configuration.'',
                    entry_type = ''action'', timestamp = now_ts \<rparr>]\<rparr>,
           isLoading := False \<rparr>, None)"
  by (simp add: start_resume_def init_error_def truthy_bool_def)

text \<open>
  C8, as stated, fails: the guard reads the flag the handler captured when it was made.
  Called a second time while the first reply is pending, the handler of the idle render
  still sees the flag unset, starts a second turn and appends a second player entry.
\<close>

theorem handleAction_stale_handler_starts_turn:
  "isLoading (fst (handleAction_begin (render initialApp) 1000 1000 ''search the desk'' initialApp))
   \<and> snd (handleAction_begin (render initialApp) 1001 1001 ''open the drawer''
          (fst (handleAction_begin (render initialApp) 1000 1000 ''search the desk'' initialApp)))
   \<and> map entry_text (narrativeHistory (gameState
        (fst (handleAction_begin (render initialApp) 1001 1001 ''open the drawer''
          (fst (handleAction_begin (render initialApp) 1000 1000 ''search the desk''
             initialApp)))))) =
       [''search the desk'', ''open the drawer'']"
  by (simp add: handleAction_begin_def render_def initialApp_def initialGameState_def
      playerEntry_def)

lemma narrativeHistory_handleAction_resume:
  "\<exists>es. narrativeHistory (gameState (fst (handleAction_resume r response app))) =
          narrativeHistory (gameState app) @ es"
  by (cases "updates response")
     (simp_all add: handleAction_resume_def handleApiResponse_def narrativeHistory_apply_update)

text \<open>
  C8, amended. From the idle state, a call of the handler of the current render appends,
  before it waits for the reply, exactly one entry spoken by the player (Alex), of type
  action, with the submitted text, and sets the busy flag; whatever the reply, that entry
  stays in its place in the history the whole turn leaves. A second call while the reply
  is pending, made through the handler of the render that followed the first call,
  starts no turn and leaves the whole state as it is.
\<close>

theorem handleAction_begin_gate:
  "\<not> isLoading app \<longrightarrow>
     handleAction_begin (render app) now_id now_ts actionText app =
       (app\<lparr> gameState := (gameState app)
                \<lparr>narrativeHistory := narrativeHistory (gameState app) @
                   [\<lparr> entry_id = toString now_id, speaker = ''Alex'', entry_text = actionText,
                      entry_type = ''action'', timestamp = now_ts \<rparr>]\<rparr>,
             isLoading := True \<rparr>, True)
     \<and> take (Suc (length (narrativeHistory (gameState app))))
          (narrativeHistory (gameState (fst
             (handleAction JSON_stringify chatSession (render app) now_id now_ts r actionText app)))) =
         narrativeHistory (gameState app) @
           [\<lparr> entry_id = toString now_id, speaker = ''Alex'', entry_text = actionText,
              entry_type = ''action'', timestamp = now_ts \<rparr>]
     \<and> handleAction_begin
           (render (fst (handleAction_begin (render app) now_id now_ts actionText app)))
           now_id2 now_ts2 actionText2
           (fst (handleAction_begin (render app) now_id now_ts actionText app)) =
         (fst (handleAction_begin (render app) now_id now_ts actionText app), False)
     \<and> handleAction JSON_stringify2 chatSession2
           (render (fst (handleAction_begin (render app) now_id now_ts actionText app)))
           now_id2 now_ts2 r2 actionText2
           (fst (handleAction_begin (render app) now_id now_ts actionText app)) =
         (fst (handleAction_begin (render app) now_id now_ts actionText app), None)"
proof
  assume idle: "\<not> isLoading app"
  let ?entry = "\<lparr> entry_id = toString now_id, speaker = ''Alex'', entry_text = actionText,
      entry_type = ''action'', timestamp = now_ts \<rparr>"
  let ?app1 = "app\<lparr> gameState := (gameState app)
      \<lparr>narrativeHistory := narrativeHistory (gameState app) @ [?entry]\<rparr>, isLoading := True \<rparr>"
  have b: "handleAction_begin (render app) now_id now_ts actionText app = (?app1, True)"
    using idle by (simp add: handleAction_begin_def render_def playerEntry_def)
  have h: "handleAction JSON_stringify chatSession (render app) now_id now_ts r actionText app =
      handleAction_resume r
        (snd (sendPlayerAction JSON_stringify chatSession actionText (h_gameState (render app))))
        ?app1"
    using b by (simp add: handleAction_def)
  obtain es where es: "narrativeHistory (gameState (fst
        (handleAction JSON_stringify chatSession (render app) now_id now_ts r actionText app))) =
      narrativeHistory (gameState ?app1) @ es"
    using narrativeHistory_handleAction_resume h by metis
  have t: "take (Suc (length (narrativeHistory (gameState app))))
      (narrativeHistory (gameState (fst
         (handleAction JSON_stringify chatSession (render app) now_id now_ts r actionText app)))) =
      narrativeHistory (gameState app) @ [?entry]"
    using es by simp
  have n: "handleAction_begin (render ?app1) now_id2 now_ts2 actionText2 ?app1 = (?app1, False)"
    by (simp add: handleAction_begin_def render_def)
  have w: "handleAction JSON_stringify2 chatSession2 (render ?app1) now_id2 now_ts2 r2
      actionText2 ?app1 = (?app1, None)"
    using n by (simp add: handleAction_def)
  from b t n w show
    "handleAction_begin (render app) now_id now_ts actionText app = (?app1, True)
     \<and> take (Suc (length (narrativeHistory (gameState app))))
          (narrativeHistory (gameState (fst
             (handleAction JSON_stringify chatSession (render app) now_id now_ts r actionText app)))) =
         narrativeHistory (gameState app) @ [?entry]
     \<and> handleAction_begin
           (render (fst (handleAction_begin (render app) now_id now_ts actionText app)))
           now_id2 now_ts2 actionText2
           (fst (handleAction_begin (render app) now_id now_ts actionText app)) =
         (fst (handleAction_begin (render app) now_id now_ts actionText app), False)
     \<and> handleAction JSON_stringify2 chatSession2
           (render (fst (handleAction_begin (render app) now_id now_ts actionText app)))
           now_id2 now_ts2 r2 actionText2
           (fst (handleAction_begin (render app) now_id now_ts actionText app)) =
         (fst (handleAction_begin (render app) now_id now_ts actionText app), None)"
    by simp
qed

theorem handleAction_begin_gate_witness:
  "\<not> isLoading initialApp
   \<and> narrativeHistory (gameState
        (fst (handleAction_begin (render initialApp) 1000 1000 ''search the desk'' initialApp))) =
       [\<lparr> entry_id = toString 1000, speaker = ''Alex'', entry_text = ''search the desk'',
          entry_type = ''action'', timestamp = 1000 \<rparr>]
   \<and> take 1 (narrativeHistory (gameState (fst
        (handleAction (\<lambda>t. []) None (render initialApp) 1000 1000 (clock_at 1002)
           ''search the desk'' initialApp)))) =
       [\<lparr> entry_id = toString 1000, speaker = ''Alex'', entry_text = ''search the desk'',
          entry_type = ''action'', timestamp = 1000 \<rparr>]
   \<and> handleAction_begin
         (render (fst (handleAction_begin (render initialApp) 1000 1000 ''search the desk''
            initialApp)))
         1001 1001 ''open the drawer''
         (fst (handleAction_begin (render initialApp) 1000 1000 ''search the desk'' initialApp)) =
       (fst (handleAction_begin (render initialApp) 1000 1000 ''search the desk'' initialApp),
        False)"
proof -
  have i: "\<not> isLoading initialApp" by (simp add: initialApp_def)
  have h: "narrativeHistory (gameState initialApp) = []"
    by (simp add: initialApp_def initialGameState_def)
  from handleAction_begin_gate
    [of initialApp 1000 1000 "''search the desk''" "\<lambda>t. []" None "clock_at 1002"
        1001 1001 "''open the drawer''"] i
  have g: "handleAction_begin (render initialApp) 1000 1000 ''search the desk'' initialApp =
       (initialApp\<lparr> gameState := (gameState initialApp)
                \<lparr>narrativeHistory := narrativeHistory (gameState initialApp) @
                   [\<lparr> entry_id = toString 1000, speaker = ''Alex'',
                      entry_text = ''search the desk'',
                      entry_type = ''action'', timestamp = 1000 \<rparr>]\<rparr>,
             isLoading := True \<rparr>, True)"
    and t: "take (Suc (length (narrativeHistory (gameState initialApp))))
          (narrativeHistory (gameState (fst
             (handleAction (\<lambda>t. []) None (render initialApp) 1000 1000 (clock_at 1002)
                ''search the desk'' initialApp)))) =
         narrativeHistory (gameState initialApp) @
           [\<lparr> entry_id = toString 1000, speaker = ''Alex'', entry_text = ''search the desk'',
              entry_type = ''action'', timestamp = 1000 \<rparr>]"
    and n: "handleAction_begin
         (render (fst (handleAction_begin (render initialApp) 1000 1000 ''search the desk''
            initialApp)))
         1001 1001 ''open the drawer''
         (fst (handleAction_begin (render initialApp) 1000 1000 ''search the desk'' initialApp)) =
       (fst (handleAction_begin (render initialApp) 1000 1000 ''search the desk'' initialApp),
        False)"
    by blast+
  from g h have g': "narrativeHistory (gameState
        (fst (handleAction_begin (render initialApp) 1000 1000 ''search the desk'' initialApp))) =
       [\<lparr> entry_id = toString 1000, speaker = ''Alex'', entry_text = ''search the desk'',
          entry_type = ''action'', timestamp = 1000 \<rparr>]"
    by simp
  from t h have t': "take 1 (narrativeHistory (gameState (fst
        (handleAction (\<lambda>t. []) None (render initialApp) 1000 1000 (clock_at 1002)
           ''search the desk'' initialApp)))) =
       [\<lparr> entry_id = toString 1000, speaker = ''Alex'', entry_text = ''search the desk'',
          entry_type = ''action'', timestamp = 1000 \<rparr>]"
    by simp
  from i g' t' n show ?thesis by blast
qed

end
